theory Spec2Isabelle
  imports Main "HOL-Library.Word"
begin

section \<open>A REST-backed certificate storage (rest.go)\<close>

text \<open>
  The module \<^verbatim>\<open>rest.go\<close> is a client: every operation builds one JSON request,
  hands it to the HTTP client of the Go standard library and maps the status code of the
  answer to a result. The embedding below follows the file function by function. What the
  file calls but does not contain (the JSON codec, the URL parser, the clock, the network
  and the remote service) is made explicit as an environment:
  \<^item> the JSON codec, the URL parser and \<^verbatim>\<open>time.Parse\<close> are the fields of a record
    \<open>library\<close>, so every theorem holds for every behaviour of these functions;
  \<^item> the remote service is a script: the reply that the n-th request reaching it receives;
  \<^item> the clock, the requests that reached the remote and the lines written to the logger
    are the fields of a record \<open>world\<close>, threaded through every operation.
\<close>

subsection \<open>Errors, panics and formatting\<close>

text \<open>
  Go's \<^verbatim>\<open>error\<close> values. \<open>ErrNotExist\<close> is the sentinel \<^verbatim>\<open>fs.ErrNotExist\<close>,
  \<open>Errorf m\<close> is the value of \<^verbatim>\<open>fmt.Errorf\<close> with the formatted message \<open>m\<close>,
  \<open>Canceled\<close> is the error with which the HTTP client gives up a request whose context is
  done, \<open>CorruptInputError\<close> is the error of the base64 decoder and \<open>LibraryError\<close>
  stands for every other error that a library function hands back.
\<close>

datatype error =
    ErrNotExist
  | Errorf string
  | Canceled
  | CorruptInputError
  | LibraryError string

text \<open>
  A call either returns or panics. The only panic of \<^verbatim>\<open>rest.go\<close> is the nil pointer
  dereference in \<^verbatim>\<open>client\<close>.
\<close>

datatype 'a outcome = Panic | Returned 'a

text \<open>The verb \<^verbatim>\<open>%v\<close> on an \<^verbatim>\<open>int\<close>: decimal digits, with a sign when negative.\<close>

definition digit_char :: "nat \<Rightarrow> char" where
  "digit_char d = ''0123456789'' ! d"

fun digits10 :: "nat \<Rightarrow> string" where
  "digits10 n = (if n < 10 then [digit_char n] else digits10 (n div 10) @ [digit_char (n mod 10)])"

declare digits10.simps [simp del]

definition itoa :: "int \<Rightarrow> string" where
  "itoa i = (if i < 0 then CHR ''-'' # digits10 (nat (- i)) else digits10 (nat i))"

subsection \<open>The environment: context, clock, network, logger\<close>

text \<open>
  A \<^verbatim>\<open>context.Context\<close> is observed only through its \<^verbatim>\<open>Done\<close> channel. The model
  fixes the instant at which the caller cancels it (\<open>None\<close>: never); the context is done
  from that instant on. Instants and durations are in nanoseconds, as \<^verbatim>\<open>time.Duration\<close>.
\<close>

record Context =
  cancel_at :: "nat option"

definition ctx_Done :: "Context \<Rightarrow> nat \<Rightarrow> bool" where
  "ctx_Done ctx t = (case cancel_at ctx of None \<Rightarrow> False | Some c \<Rightarrow> c \<le> t)"

definition Second :: nat where
  "Second = 1000000000"

record request =
  req_ctx :: Context
  req_method :: string
  req_url :: string
  req_header :: "(string \<times> string) list"
  req_body :: string

record response =
  StatusCode :: int
  Body :: string

text \<open>
  One reply of the scripted remote: how long the exchange takes and how it ends, with a
  transport-level error (connection refused, timeout) or with a response.
\<close>

record reply =
  latency :: nat
  result :: "error + response"

type_synonym remote = "nat \<Rightarrow> reply"

datatype level = InfoLevel | ErrorLevel

record world =
  now :: nat
  sent :: "request list"
  logs :: "(level \<times> string) list"

definition time_Sleep :: "nat \<Rightarrow> world \<Rightarrow> world" where
  "time_Sleep d w = w\<lparr>now := now w + d\<rparr>"

definition logger_Info :: "string \<Rightarrow> world \<Rightarrow> world" where
  "logger_Info msg w = w\<lparr>logs := logs w @ [(InfoLevel, msg)]\<rparr>"

definition logger_Error :: "string \<Rightarrow> world \<Rightarrow> world" where
  "logger_Error msg w = w\<lparr>logs := logs w @ [(ErrorLevel, msg)]\<rparr>"

text \<open>
  \<^verbatim>\<open>(*http.Client).Do\<close> against the scripted remote. The transport looks at the context
  before it sends anything: a request whose context is already done fails at once and never
  reaches the remote. Otherwise the request is sent and takes the next reply of the script;
  when the context is cancelled before that reply has arrived, the exchange is aborted at the
  instant of the cancellation.
\<close>

definition http_Do :: "remote \<Rightarrow> request \<Rightarrow> world \<Rightarrow> (error + response) \<times> world" where
  "http_Do S req w =
     (if ctx_Done (req_ctx req) (now w) then (Inl Canceled, w)
      else
        let rp = S (length (sent w));
            w1 = w\<lparr>sent := sent w @ [req]\<rparr>
        in (case cancel_at (req_ctx req) of
              None \<Rightarrow> (result rp, w1\<lparr>now := now w + latency rp\<rparr>)
            | Some c \<Rightarrow>
                if c < now w + latency rp then (Inl Canceled, w1\<lparr>now := c\<rparr>)
                else (result rp, w1\<lparr>now := now w + latency rp\<rparr>)))"

subsection \<open>The library functions that rest.go calls\<close>

text \<open>
  The structs that \<^verbatim>\<open>rest.go\<close> marshals into request bodies, one constructor for each
  struct type, the arguments in the order of the fields.
\<close>

datatype payload =
    LockRequest string
  | UnlockRequest string
  | StoreRequest string string
  | LoadRequest string
  | DeleteRequest string
  | ExistsRequest string
  | ListRequest string bool
  | StatRequest string

text \<open>
  \<^verbatim>\<open>time.Time\<close>, as nanoseconds since the epoch, and the structs that responses are
  decoded into. \<^verbatim>\<open>LoadResponse\<close>, \<^verbatim>\<open>ExistsResponse\<close> and \<^verbatim>\<open>ListResponse\<close> have
  one field each and are modelled by the type of that field.
\<close>

datatype Time = Time int

record StatResponse =
  resp_Key :: string
  resp_Modified :: string
  resp_Size :: "64 word"
  resp_IsTerminal :: bool

record KeyInfo =
  Key :: string
  Modified :: Time
  Size :: "64 word"
  IsTerminal :: bool

text \<open>
  The functions of \<^verbatim>\<open>encoding/json\<close>, \<^verbatim>\<open>net/url\<close> and \<^verbatim>\<open>time\<close> that the file relies
  on. \<open>'p\<close> is the type of the values handed to \<^verbatim>\<open>json.Marshal\<close> (\<^verbatim>\<open>any\<close> in
  \<^verbatim>\<open>client\<close>). \<open>url_Parse\<close> gives the error of \<^verbatim>\<open>url.Parse\<close>, \<open>None\<close> when the text
  parses. Each decoder stands for \<^verbatim>\<open>json.NewDecoder(body).Decode\<close> into a zero value of
  the struct.
\<close>

record 'p library =
  json_Marshal :: "'p \<Rightarrow> error + string"
  url_Parse :: "string \<Rightarrow> error option"
  decode_LoadResponse :: "string \<Rightarrow> error + string"
  decode_ExistsResponse :: "string \<Rightarrow> error + bool"
  decode_ListResponse :: "string \<Rightarrow> error + string list"
  decode_StatResponse :: "string \<Rightarrow> error + StatResponse"
  time_Parse_RFC3339 :: "string \<Rightarrow> error + Time"

text \<open>
  \<^verbatim>\<open>http.NewRequestWithContext\<close>: an empty method means GET; a method that is not a
  token of RFC 7230 is refused, and so is a URL that does not parse. On an error the
  request returned is nil. The third test of the function, for a nil context, has no
  counterpart: a \<open>Context\<close> of the model is never nil.
\<close>

definition isTokenRune :: "char \<Rightarrow> bool" where
  "isTokenRune c =
     (c \<in> set ''0123456789abcdefghijklmnopqrstuvwxyzABCDEFGHIJKLMNOPQRSTUVWXYZ!#$%&*+-.^_|~'' \<or>
      c = CHR 0x27 \<or> c = CHR 0x60)"

definition validMethod :: "string \<Rightarrow> bool" where
  "validMethod method = (method \<noteq> [] \<and> list_all isTokenRune method)"

definition http_NewRequestWithContext ::
  "'p library \<Rightarrow> Context \<Rightarrow> string \<Rightarrow> string \<Rightarrow> string \<Rightarrow> error + request" where
  "http_NewRequestWithContext L ctx method url body =
     (let m = (if method = [] then ''GET'' else method) in
      if \<not> validMethod m
      then Inl (Errorf (''net/http: invalid method '' @ [CHR 0x22] @ m @ [CHR 0x22]))
      else (case url_Parse L url of
              Some err \<Rightarrow> Inl err
            | None \<Rightarrow>
                Inr \<lparr>req_ctx = ctx, req_method = m, req_url = url,
                     req_header = [], req_body = body\<rparr>))"

definition Header_Add :: "string \<Rightarrow> string \<Rightarrow> request \<Rightarrow> request" where
  "Header_Add k v req = req\<lparr>req_header := req_header req @ [(k, v)]\<rparr>"

subsection \<open>The storage and its transport\<close>

text \<open>
  The struct \<^verbatim>\<open>RestStorage\<close>. Its third field, the logger, is set by \<^verbatim>\<open>Provision\<close>
  before the storage is used; what it writes goes to \<open>logs\<close> of the world.
\<close>

record RestStorage =
  Endpoint :: string
  ApiKey :: string

text \<open>
  \<^verbatim>\<open>client\<close>, lines 31 to 45. The error of \<^verbatim>\<open>http.NewRequestWithContext\<close> is
  assigned and never read: when the constructor fails, \<^verbatim>\<open>req\<close> is nil and
  \<^verbatim>\<open>req.Header.Add\<close> on the next line dereferences it.
\<close>

definition client ::
  "'p library \<Rightarrow> remote \<Rightarrow> RestStorage \<Rightarrow> Context \<Rightarrow> string \<Rightarrow> string \<Rightarrow> 'p \<Rightarrow> world
     \<Rightarrow> ((error + response) \<times> world) outcome" where
  "client L S r ctx method path dataStruct w =
     (case json_Marshal L dataStruct of
        Inl err \<Rightarrow> Returned (Inl err, w)
      | Inr requestBody \<Rightarrow>
          (case http_NewRequestWithContext L ctx method (Endpoint r @ path) requestBody of
             Inl err \<Rightarrow> Panic
           | Inr req \<Rightarrow>
               (let req1 = Header_Add ''Content-Type'' ''application/json'' req;
                    req2 = Header_Add ''x-api-key'' (ApiKey r) req1
                in (case http_Do S req2 w of
                      (Inl err, w1) \<Rightarrow> Returned (Inl err, w1)
                    | (Inr resp, w1) \<Rightarrow> Returned (Inr resp, w1)))))"

subsection \<open>The lock manager\<close>

text \<open>
  \<^verbatim>\<open>Lock\<close>, lines 108 to 137: a loop with no bound. The result is \<open>None\<close> when the loop
  never ends, \<open>Some Panic\<close> when the transport panics, and otherwise the error that the
  call returns (\<open>None\<close> for nil) with the world it leaves.
\<close>

partial_function (option) Lock ::
  "payload library \<Rightarrow> remote \<Rightarrow> RestStorage \<Rightarrow> Context \<Rightarrow> string \<Rightarrow> world
     \<Rightarrow> (error option \<times> world) outcome option" where
  "Lock L S r ctx key w =
     (case client L S r ctx ''POST'' ''lock'' (LockRequest key) w of
        Panic \<Rightarrow> Some Panic
      | Returned (Inl err, w1) \<Rightarrow> Some (Returned (Some err, w1))
      | Returned (Inr resp, w1) \<Rightarrow>
          if StatusCode resp = 201 then Some (Returned (None, w1))
          else if StatusCode resp = 423 then
            Lock L S r ctx key
              (time_Sleep (5 * Second)
                 (logger_Info (''Key '' @ key @ '' is already locked.'') w1))
          else if StatusCode resp = 412 then
            Lock L S r ctx key
              (time_Sleep (5 * Second)
                 (logger_Error
                    (''Error locking key '' @ key @ '': '' @ itoa (StatusCode resp) @
                     '' ; Will try again.'' @ [CHR 0x0A]) w1))
          else
            Some (Returned
              (Some (Errorf (''Unknown status code received: '' @ itoa (StatusCode resp))), w1)))"

text \<open>\<^verbatim>\<open>Unlock\<close>, lines 143 to 159.\<close>

definition Unlock ::
  "payload library \<Rightarrow> remote \<Rightarrow> RestStorage \<Rightarrow> Context \<Rightarrow> string \<Rightarrow> world
     \<Rightarrow> (error option \<times> world) outcome" where
  "Unlock L S r ctx key w =
     (case client L S r ctx ''POST'' ''unlock'' (UnlockRequest key) w of
        Panic \<Rightarrow> Panic
      | Returned (Inl err, w1) \<Rightarrow> Returned (Some err, w1)
      | Returned (Inr resp, w1) \<Rightarrow>
          if StatusCode resp \<noteq> 204
          then Returned (Some (Errorf (''unknown status code received: '' @ itoa (StatusCode resp))), w1)
          else Returned (None, w1))"

subsection \<open>The codec: base64.StdEncoding\<close>

text \<open>
  Values are byte sequences. \<^verbatim>\<open>base64.StdEncoding\<close> is the alphabet of RFC 4648 with
  padding. \<^verbatim>\<open>EncodeToString\<close> packs three bytes into a 24-bit value
  \<^verbatim>\<open>b0<<16 | b1<<8 | b2\<close> and writes its four 6-bit digits; a remainder of one or two
  bytes is written as two or three digits and padded with \<^verbatim>\<open>=\<close>. The shifts and masks are
  written as multiplication, division and remainder by powers of two.
\<close>

type_synonym byte = "8 word"

definition encodeStd :: string where
  "encodeStd = ''ABCDEFGHIJKLMNOPQRSTUVWXYZabcdefghijklmnopqrstuvwxyz0123456789+/''"

definition enc_digit :: "nat \<Rightarrow> char" where
  "enc_digit v = encodeStd ! (v mod 64)"

fun EncodeToString :: "byte list \<Rightarrow> string" where
  "EncodeToString [] = []"
| "EncodeToString [b0] =
     (let val = unat b0 * 65536 in
      [enc_digit (val div 262144), enc_digit (val div 4096), CHR ''='', CHR ''=''])"
| "EncodeToString [b0, b1] =
     (let val = unat b0 * 65536 + unat b1 * 256 in
      [enc_digit (val div 262144), enc_digit (val div 4096), enc_digit (val div 64), CHR ''=''])"
| "EncodeToString (b0 # b1 # b2 # src) =
     (let val = unat b0 * 65536 + unat b1 * 256 + unat b2 in
      enc_digit (val div 262144) # enc_digit (val div 4096) # enc_digit (val div 64) #
      enc_digit val # EncodeToString src)"

text \<open>
  \<^verbatim>\<open>DecodeString\<close>: the decode map sends a character of the alphabet to its index.
  Carriage returns and line feeds are skipped. The text is read four characters at a time;
  padding may only end the text, after two or three digits; anything else is corrupt input.
  \<^verbatim>\<open>Load\<close> drops the bytes decoded before an error, so the model returns the error only.
\<close>

fun index_of :: "char \<Rightarrow> string \<Rightarrow> nat \<Rightarrow> nat option" where
  "index_of c [] i = None"
| "index_of c (x # xs) i = (if x = c then Some i else index_of c xs (Suc i))"

definition decodeMap :: "char \<Rightarrow> nat option" where
  "decodeMap c = index_of c encodeStd 0"

fun decode_quanta :: "string \<Rightarrow> error + byte list" where
  "decode_quanta [] = Inr []"
| "decode_quanta (c0 # c1 # c2 # c3 # rest) =
     (case (decodeMap c0, decodeMap c1) of
        (Some d0, Some d1) \<Rightarrow>
          if c2 = CHR ''='' then
            (if c3 = CHR ''='' \<and> rest = []
             then Inr [of_nat ((d0 * 262144 + d1 * 4096) div 65536)]
             else Inl CorruptInputError)
          else
            (case decodeMap c2 of
               None \<Rightarrow> Inl CorruptInputError
             | Some d2 \<Rightarrow>
                 if c3 = CHR ''='' then
                   (if rest = []
                    then (let val = d0 * 262144 + d1 * 4096 + d2 * 64 in
                          Inr [of_nat (val div 65536), of_nat (val div 256)])
                    else Inl CorruptInputError)
                 else
                   (case decodeMap c3 of
                      None \<Rightarrow> Inl CorruptInputError
                    | Some d3 \<Rightarrow>
                        (let val = d0 * 262144 + d1 * 4096 + d2 * 64 + d3 in
                         case decode_quanta rest of
                           Inl err \<Rightarrow> Inl err
                         | Inr dst \<Rightarrow>
                             Inr (of_nat (val div 65536) # of_nat (val div 256) # of_nat val # dst))))
      | _ \<Rightarrow> Inl CorruptInputError)"
| "decode_quanta _ = Inl CorruptInputError"

definition DecodeString :: "string \<Rightarrow> error + byte list" where
  "DecodeString s = decode_quanta (filter (\<lambda>c. c \<noteq> CHR 0x0A \<and> c \<noteq> CHR 0x0D) s)"

subsection \<open>The key/value operations\<close>

text \<open>\<^verbatim>\<open>Store\<close>, lines 166 to 184.\<close>

definition Store ::
  "payload library \<Rightarrow> remote \<Rightarrow> RestStorage \<Rightarrow> Context \<Rightarrow> string \<Rightarrow> byte list \<Rightarrow> world
     \<Rightarrow> (error option \<times> world) outcome" where
  "Store L S r ctx key val w =
     (let valueEnc = EncodeToString val in
      case client L S r ctx ''POST'' ''store'' (StoreRequest key valueEnc) w of
        Panic \<Rightarrow> Panic
      | Returned (Inl err, w1) \<Rightarrow> Returned (Some err, w1)
      | Returned (Inr resp, w1) \<Rightarrow>
          if StatusCode resp \<noteq> 201
          then Returned (Some (Errorf (''unknown status code received: '' @ itoa (StatusCode resp))), w1)
          else Returned (None, w1))"

text \<open>\<^verbatim>\<open>Load\<close>, lines 194 to 228.\<close>

definition Load ::
  "payload library \<Rightarrow> remote \<Rightarrow> RestStorage \<Rightarrow> Context \<Rightarrow> string \<Rightarrow> world
     \<Rightarrow> ((error + byte list) \<times> world) outcome" where
  "Load L S r ctx key w =
     (case client L S r ctx ''POST'' ''load'' (LoadRequest key) w of
        Panic \<Rightarrow> Panic
      | Returned (Inl err, w1) \<Rightarrow> Returned (Inl err, w1)
      | Returned (Inr resp, w1) \<Rightarrow>
          if StatusCode resp = 404 then Returned (Inl ErrNotExist, w1)
          else if StatusCode resp \<noteq> 200
          then Returned (Inl (Errorf (''unknown status code received: '' @ itoa (StatusCode resp))), w1)
          else
            (case decode_LoadResponse L (Body resp) of
               Inl err \<Rightarrow> Returned (Inl err, w1)
             | Inr loadResp_Value \<Rightarrow>
                 (case DecodeString loadResp_Value of
                    Inl err \<Rightarrow> Returned (Inl err, w1)
                  | Inr valueDec \<Rightarrow> Returned (Inr valueDec, w1))))"


text \<open>\<^verbatim>\<open>Exists\<close>, lines 264 to 288. The function has one result, a boolean.\<close>

definition Exists ::
  "payload library \<Rightarrow> remote \<Rightarrow> RestStorage \<Rightarrow> Context \<Rightarrow> string \<Rightarrow> world
     \<Rightarrow> (bool \<times> world) outcome" where
  "Exists L S r ctx key w =
     (case client L S r ctx ''POST'' ''exists'' (ExistsRequest key) w of
        Panic \<Rightarrow> Panic
      | Returned (Inl err, w1) \<Rightarrow> Returned (False, w1)
      | Returned (Inr resp, w1) \<Rightarrow>
          if StatusCode resp \<noteq> 200 then Returned (False, w1)
          else
            (case decode_ExistsResponse L (Body resp) of
               Inl err \<Rightarrow> Returned (False, w1)
             | Inr existsResp_Exists \<Rightarrow> Returned (existsResp_Exists, w1)))"

text \<open>\<^verbatim>\<open>List\<close>, lines 299 to 328.\<close>

definition List ::
  "payload library \<Rightarrow> remote \<Rightarrow> RestStorage \<Rightarrow> Context \<Rightarrow> string \<Rightarrow> bool \<Rightarrow> world
     \<Rightarrow> ((error + string list) \<times> world) outcome" where
  "List L S r ctx prefix recursive w =
     (case client L S r ctx ''POST'' ''list'' (ListRequest prefix recursive) w of
        Panic \<Rightarrow> Panic
      | Returned (Inl err, w1) \<Rightarrow> Returned (Inl err, w1)
      | Returned (Inr resp, w1) \<Rightarrow>
          if StatusCode resp = 404 then Returned (Inl ErrNotExist, w1)
          else if StatusCode resp \<noteq> 200
          then Returned (Inl (Errorf (''unknown status code received: '' @ itoa (StatusCode resp))), w1)
          else
            (case decode_ListResponse L (Body resp) of
               Inl err \<Rightarrow> Returned (Inl err, w1)
             | Inr listResp_Keys \<Rightarrow> Returned (Inr listResp_Keys, w1)))"

text \<open>\<^verbatim>\<open>Stat\<close>, lines 341 to 384. The second test of \<^verbatim>\<open>err\<close> repeats the first.\<close>

definition Stat ::
  "payload library \<Rightarrow> remote \<Rightarrow> RestStorage \<Rightarrow> Context \<Rightarrow> string \<Rightarrow> world
     \<Rightarrow> ((error + KeyInfo) \<times> world) outcome" where
  "Stat L S r ctx key w =
     (case client L S r ctx ''POST'' ''stat'' (StatRequest key) w of
        Panic \<Rightarrow> Panic
      | Returned (Inl err, w1) \<Rightarrow> Returned (Inl err, w1)
      | Returned (Inr resp, w1) \<Rightarrow>
          if StatusCode resp = 404 then Returned (Inl ErrNotExist, w1)
          else if StatusCode resp \<noteq> 200
          then Returned (Inl (Errorf (''unknown status code received: '' @ itoa (StatusCode resp))), w1)
          else
            (case decode_StatResponse L (Body resp) of
               Inl err \<Rightarrow> Returned (Inl err, w1)
             | Inr statResp \<Rightarrow>
                 (case time_Parse_RFC3339 L (resp_Modified statResp) of
                    Inl err \<Rightarrow> Returned (Inl err, w1)
                  | Inr parsedTime \<Rightarrow>
                      Returned
                        (Inr \<lparr>Key = resp_Key statResp, Modified = parsedTime,
                              Size = resp_Size statResp, IsTerminal = resp_IsTerminal statResp\<rparr>,
                         w1))))"

subsection \<open>Configuration: UnmarshalCaddyfile\<close>

text \<open>
  The \<^verbatim>\<open>caddyfile.Dispenser\<close> that \<^verbatim>\<open>UnmarshalCaddyfile\<close> reads: the tokens of the
  Caddyfile and a cursor, which starts at -1. Whether a token starts a new line is decided
  by the lexer's positions; the model takes that test, \<open>isNextOnNewLine\<close>, as a parameter.
  \<^verbatim>\<open>Next\<close> moves to the next token if there is one. \<^verbatim>\<open>NextArg\<close> moves to the next token
  when it is on the same line and does not open a block. \<^verbatim>\<open>Args\<close>, called with one
  target, stores the token that \<^verbatim>\<open>NextArg\<close> loads.
\<close>

record token =
  Text :: string
  Line :: nat

record Dispenser =
  tokens :: "token list"
  cursor :: int

definition d_Next :: "Dispenser \<Rightarrow> bool \<times> Dispenser" where
  "d_Next d =
     (if cursor d < int (length (tokens d)) - 1 then (True, d\<lparr>cursor := cursor d + 1\<rparr>)
      else (False, d))"

definition d_Val :: "Dispenser \<Rightarrow> string" where
  "d_Val d =
     (if cursor d < 0 \<or> cursor d \<ge> int (length (tokens d)) then []
      else Text (tokens d ! nat (cursor d)))"

definition nextOnSameLine :: "(token \<Rightarrow> token \<Rightarrow> bool) \<Rightarrow> Dispenser \<Rightarrow> bool \<times> Dispenser" where
  "nextOnSameLine isNextOnNewLine d =
     (if cursor d < 0 then (True, d\<lparr>cursor := cursor d + 1\<rparr>)
      else if cursor d \<ge> int (length (tokens d)) - 1 then (False, d)
      else
        let curr = tokens d ! nat (cursor d);
            next = tokens d ! nat (cursor d + 1)
        in if \<not> isNextOnNewLine curr next then (True, d\<lparr>cursor := cursor d + 1\<rparr>)
           else (False, d))"

definition d_NextArg :: "(token \<Rightarrow> token \<Rightarrow> bool) \<Rightarrow> Dispenser \<Rightarrow> bool \<times> Dispenser" where
  "d_NextArg isNextOnNewLine d =
     (let (same, d1) = nextOnSameLine isNextOnNewLine d in
      if \<not> same then (False, d1)
      else if d_Val d1 = ''{'' then (False, d1\<lparr>cursor := cursor d1 - 1\<rparr>)
      else (True, d1))"

definition d_Args :: "(token \<Rightarrow> token \<Rightarrow> bool) \<Rightarrow> string \<Rightarrow> Dispenser \<Rightarrow> bool \<times> string \<times> Dispenser" where
  "d_Args isNextOnNewLine target d =
     (let (loaded, d1) = d_NextArg isNextOnNewLine d in
      if \<not> loaded then (False, target, d1)
      else (True, d_Val d1, d1))"

text \<open>
  The \<^verbatim>\<open>switch\<close> of lines 87 to 94. A \<^verbatim>\<open>case\<close> of a Go \<^verbatim>\<open>switch\<close> does not fall
  through: the cases \<^verbatim>\<open>"apikey"\<close> and \<^verbatim>\<open>"apiKey"\<close> have empty bodies.
\<close>

definition switch_key :: "string \<Rightarrow> string \<Rightarrow> RestStorage \<Rightarrow> RestStorage" where
  "switch_key key v r =
     (if key = ''endpoint'' then r\<lparr>Endpoint := v\<rparr>
      else if key = ''apikey'' then r
      else if key = ''apiKey'' then r
      else if key = ''ApiKey'' then r\<lparr>ApiKey := v\<rparr>
      else r)"

lemma d_Args_cursor:
  "d_Args nl target d = (ok, v, d') \<Longrightarrow> tokens d' = tokens d \<and> cursor d \<le> cursor d'"
  by (auto simp: d_Args_def d_NextArg_def nextOnSameLine_def Let_def split: if_splits prod.splits)

text \<open>
  \<^verbatim>\<open>UnmarshalCaddyfile\<close>, lines 77 to 98: the loop \<^verbatim>\<open>for d.Next()\<close>. The result is the
  error returned (always nil), the storage and the dispenser as the call leaves them.
\<close>

function UnmarshalCaddyfile ::
  "(token \<Rightarrow> token \<Rightarrow> bool) \<Rightarrow> RestStorage \<Rightarrow> Dispenser \<Rightarrow> error option \<times> RestStorage \<times> Dispenser" where
  "UnmarshalCaddyfile isNextOnNewLine r d =
     (if \<not> fst (d_Next d) then (None, r, snd (d_Next d))
      else
        let d1 = snd (d_Next d);
            key = d_Val d1;
            a = d_Args isNextOnNewLine [] d1
        in if \<not> fst a then UnmarshalCaddyfile isNextOnNewLine r (snd (snd a))
           else UnmarshalCaddyfile isNextOnNewLine (switch_key key (fst (snd a)) r) (snd (snd a)))"
  by pat_completeness auto
termination
proof (relation "measure (\<lambda>(nl, r, d). nat (int (length (tokens d)) - cursor d))")
  show "wf (measure (\<lambda>(nl, r, d). nat (int (length (tokens d)) - cursor d)))"
    by simp
next
  fix nl :: "token \<Rightarrow> token \<Rightarrow> bool" and r :: RestStorage and d d1 :: Dispenser
    and key :: string and a :: "bool \<times> string \<times> Dispenser"
  assume more: "\<not> \<not> fst (d_Next d)" and d1: "d1 = snd (d_Next d)"
    and a: "a = d_Args nl [] d1"
  from more have lt: "cursor d < int (length (tokens d)) - 1"
    by (simp add: d_Next_def split: if_splits)
  with d1 have c1: "cursor d1 = cursor d + 1" and t1: "tokens d1 = tokens d"
    by (simp_all add: d_Next_def)
  from a have "d_Args nl [] d1 = (fst a, fst (snd a), snd (snd a))"
    by simp
  then have "tokens (snd (snd a)) = tokens d1 \<and> cursor d1 \<le> cursor (snd (snd a))"
    by (rule d_Args_cursor)
  with lt c1 t1 have dec: "nat (int (length (tokens (snd (snd a)))) - cursor (snd (snd a)))
      < nat (int (length (tokens d)) - cursor d)"
    by simp
  {
    show "((nl, r, snd (snd a)), nl, r, d)
        \<in> measure (\<lambda>(nl, r, d). nat (int (length (tokens d)) - cursor d))"
      using dec by simp
  }
  {
    show "((nl, switch_key key (fst (snd a)) r, snd (snd a)), nl, r, d)
        \<in> measure (\<lambda>(nl, r, d). nat (int (length (tokens d)) - cursor d))"
      using dec by simp
  }
qed

declare UnmarshalCaddyfile.simps [simp del]

subsection \<open>A concrete environment\<close>

text \<open>
  An instance of the environment, for running the operations on concrete inputs. The
  encoder writes the request structs as JSON objects (without escaping); the decoders
  read a \<^verbatim>\<open>value\<close> object and otherwise know the response bodies of the examples only;
  \<open>url_Parse\<close> makes the first test of \<^verbatim>\<open>url.Parse\<close>, which refuses a text with an
  ASCII control character.
\<close>

definition quoted :: "string \<Rightarrow> string" where
  "quoted s = [CHR 0x22] @ s @ [CHR 0x22]"

fun marshal_payload :: "payload \<Rightarrow> string" where
  "marshal_payload (LockRequest k) = ''{\"key\":'' @ quoted k @ ''}''"
| "marshal_payload (UnlockRequest k) = ''{\"key\":'' @ quoted k @ ''}''"
| "marshal_payload (StoreRequest k v) = ''{\"key\":'' @ quoted k @ '',\"value\":'' @ quoted v @ ''}''"
| "marshal_payload (LoadRequest k) = ''{\"key\":'' @ quoted k @ ''}''"
| "marshal_payload (DeleteRequest k) = ''{\"key\":'' @ quoted k @ ''}''"
| "marshal_payload (ExistsRequest k) = ''{\"key\":'' @ quoted k @ ''}''"
| "marshal_payload (ListRequest p rec) =
     ''{\"prefix\":'' @ quoted p @ '',\"recursive\":'' @ (if rec then ''true'' else ''false'') @ ''}''"
| "marshal_payload (StatRequest k) = ''{\"key\":'' @ quoted k @ ''}''"

definition stringContainsCTLByte :: "string \<Rightarrow> bool" where
  "stringContainsCTLByte s = list_ex (\<lambda>c. (of_char c :: nat) < 32 \<or> (of_char c :: nat) = 127) s"

definition strip_affixes :: "string \<Rightarrow> string \<Rightarrow> string \<Rightarrow> string option" where
  "strip_affixes pre suf s =
     (if length pre + length suf \<le> length s \<and> take (length pre) s = pre \<and>
         drop (length s - length suf) s = suf
      then Some (take (length s - length pre - length suf) (drop (length pre) s))
      else None)"

definition example_library :: "payload library" where
  "example_library =
     \<lparr>json_Marshal = (\<lambda>p. Inr (marshal_payload p)),
      url_Parse = (\<lambda>u. if stringContainsCTLByte u
                         then Some (LibraryError ''net/url: invalid control character in URL'')
                         else None),
      decode_LoadResponse = (\<lambda>b. case strip_affixes ''{\"value\":\"'' ''\"}'' b of
                                     Some v \<Rightarrow> Inr v
                                   | None \<Rightarrow> Inl (LibraryError ''json: cannot decode'')),
      decode_ExistsResponse = (\<lambda>b. if b = ''{\"exists\":true}'' then Inr True
                                     else if b = ''{\"exists\":false}'' then Inr False
                                     else Inl (LibraryError ''json: cannot decode'')),
      decode_ListResponse = (\<lambda>b. if b = ''{\"keys\":[\"b\",\"a\",\"b\"]}'' then Inr [''b'', ''a'', ''b'']
                                   else if b = ''{\"keys\":[\"a/x\"]}'' then Inr [''a/x'']
                                   else Inl (LibraryError ''json: cannot decode'')),
      decode_StatResponse = (\<lambda>b.
         if b = ''{\"key\":\"k\",\"modified\":\"2024-01-02T03:04:05Z\",\"size\":3,\"isTerminal\":true}''
         then Inr \<lparr>resp_Key = ''k'', resp_Modified = ''2024-01-02T03:04:05Z'', resp_Size = 3,
                   resp_IsTerminal = True\<rparr>
         else if b = ''{\"key\":\"k\",\"modified\":\"yesterday\",\"size\":3,\"isTerminal\":true}''
         then Inr \<lparr>resp_Key = ''k'', resp_Modified = ''yesterday'', resp_Size = 3,
                   resp_IsTerminal = True\<rparr>
         else Inl (LibraryError ''json: cannot decode'')),
      time_Parse_RFC3339 = (\<lambda>s. if s = ''2024-01-02T03:04:05Z'' then Inr (Time 1704164645000000000)
                                  else Inl (LibraryError ''parsing time: cannot parse''))\<rparr>"

definition respond :: "int \<Rightarrow> string \<Rightarrow> reply" where
  "respond code body = \<lparr>latency = 0, result = Inr \<lparr>StatusCode = code, Body = body\<rparr>\<rparr>"

definition refuse :: reply where
  "refuse = \<lparr>latency = 0, result = Inl (LibraryError ''connection refused'')\<rparr>"

definition scripted :: "reply list \<Rightarrow> remote" where
  "scripted rs n = (if n < length rs then rs ! n else refuse)"

definition r0 :: RestStorage where
  "r0 = \<lparr>Endpoint = ''https://api.example.com/'', ApiKey = ''secret''\<rparr>"

definition ctx0 :: Context where
  "ctx0 = \<lparr>cancel_at = None\<rparr>"

definition w0 :: world where
  "w0 = \<lparr>now = 0, sent = [], logs = []\<rparr>"

subsection \<open>Notions used in the statements about Lock\<close>

text \<open>
  The request that \<^verbatim>\<open>client\<close> hands to the HTTP client, a reply on which \<^verbatim>\<open>Lock\<close> tries
  again, a context that is not cancelled up to an instant, and the instant at which the
  reply to the i-th request of a \<^verbatim>\<open>Lock\<close> call arrives when all earlier replies made it
  wait: i waits of five seconds and the latencies of the replies so far.
\<close>

definition sent_request :: "RestStorage \<Rightarrow> Context \<Rightarrow> string \<Rightarrow> string \<Rightarrow> string \<Rightarrow> request" where
  "sent_request r ctx method path body =
     \<lparr>req_ctx = ctx, req_method = method, req_url = Endpoint r @ path,
      req_header = [(''Content-Type'', ''application/json''), (''x-api-key'', ApiKey r)],
      req_body = body\<rparr>"

definition retries :: "reply \<Rightarrow> bool" where
  "retries rp =
     (case result rp of
        Inl err \<Rightarrow> False
      | Inr resp \<Rightarrow> StatusCode resp = 423 \<or> StatusCode resp = 412)"

definition live :: "Context \<Rightarrow> nat \<Rightarrow> bool" where
  "live ctx t = (case cancel_at ctx of None \<Rightarrow> True | Some c \<Rightarrow> t < c)"

definition reply_time :: "remote \<Rightarrow> world \<Rightarrow> nat \<Rightarrow> nat" where
  "reply_time S w i =
     now w + i * (5 * Second) + (\<Sum>j\<le>i. latency (S (length (sent w) + j)))"


section \<open>Properties\<close>

subsection \<open>The transport, step by step\<close>

lemma validMethod_POST: "validMethod ''POST''"
  by (simp add: validMethod_def isTokenRune_def)

lemma validMethod_DELETE: "validMethod ''DELETE''"
  by (simp add: validMethod_def isTokenRune_def)

lemma client_sends:
  assumes "json_Marshal L d = Inr b" and "m \<noteq> []" and "validMethod m"
    and "url_Parse L (Endpoint r @ path) = None"
  shows "client L S r ctx m path d w =
    Returned (http_Do S
      \<lparr>req_ctx = ctx, req_method = m, req_url = Endpoint r @ path,
        req_header = [(''Content-Type'', ''application/json''), (''x-api-key'', ApiKey r)],
        req_body = b\<rparr> w)"
  using assms
  by (simp add: client_def http_NewRequestWithContext_def Header_Add_def split: prod.split sum.split)

lemma http_Do_live:
  assumes "cancel_at (req_ctx req) = None"
  shows "http_Do S req w =
    (result (S (length (sent w))), w\<lparr>sent := sent w @ [req], now := now w + latency (S (length (sent w)))\<rparr>)"
  using assms by (simp add: http_Do_def ctx_Done_def Let_def)

lemma example_Marshal: "json_Marshal example_library d = Inr (marshal_payload d)"
  by (simp add: example_library_def)

lemma example_url: "url_Parse example_library (Endpoint r0 @ path) = None \<longleftrightarrow> \<not> stringContainsCTLByte path"
  by (simp add: example_library_def stringContainsCTLByte_def r0_def)

lemma example_client:
  assumes "m \<noteq> []" and "validMethod m" and "\<not> stringContainsCTLByte path"
  shows "client example_library S r0 ctx0 m path d w =
    Returned (result (S (length (sent w))),
      w\<lparr>sent := sent w @
          [\<lparr>req_ctx = ctx0, req_method = m, req_url = Endpoint r0 @ path,
            req_header = [(''Content-Type'', ''application/json''), (''x-api-key'', ApiKey r0)],
            req_body = marshal_payload d\<rparr>],
        now := now w + latency (S (length (sent w)))\<rparr>)"
  using assms
  by (simp add: client_sends [OF example_Marshal] example_url http_Do_live ctx0_def)

lemmas example_run =
  example_client validMethod_POST validMethod_DELETE stringContainsCTLByte_def
  scripted_def respond_def refuse_def w0_def

lemma example_decode_Load:
  "decode_LoadResponse example_library b =
     (case strip_affixes ''{\"value\":\"'' ''\"}'' b of
        Some v \<Rightarrow> Inr v | None \<Rightarrow> Inl (LibraryError ''json: cannot decode''))"
  by (simp add: example_library_def)

lemma example_decode_Exists:
  "decode_ExistsResponse example_library b =
     (if b = ''{\"exists\":true}'' then Inr True
      else if b = ''{\"exists\":false}'' then Inr False
      else Inl (LibraryError ''json: cannot decode''))"
  by (simp add: example_library_def)

lemma example_decode_List:
  "decode_ListResponse example_library b =
     (if b = ''{\"keys\":[\"b\",\"a\",\"b\"]}'' then Inr [''b'', ''a'', ''b'']
      else if b = ''{\"keys\":[\"a/x\"]}'' then Inr [''a/x'']
      else Inl (LibraryError ''json: cannot decode''))"
  by (simp add: example_library_def)

lemma example_decode_Stat:
  "decode_StatResponse example_library b =
     (if b = ''{\"key\":\"k\",\"modified\":\"2024-01-02T03:04:05Z\",\"size\":3,\"isTerminal\":true}''
      then Inr \<lparr>resp_Key = ''k'', resp_Modified = ''2024-01-02T03:04:05Z'', resp_Size = 3,
                resp_IsTerminal = True\<rparr>
      else if b = ''{\"key\":\"k\",\"modified\":\"yesterday\",\"size\":3,\"isTerminal\":true}''
      then Inr \<lparr>resp_Key = ''k'', resp_Modified = ''yesterday'', resp_Size = 3,
                resp_IsTerminal = True\<rparr>
      else Inl (LibraryError ''json: cannot decode''))"
  by (simp add: example_library_def)

lemma example_time_Parse:
  "time_Parse_RFC3339 example_library s =
     (if s = ''2024-01-02T03:04:05Z'' then Inr (Time 1704164645000000000)
      else Inl (LibraryError ''parsing time: cannot parse''))"
  by (simp add: example_library_def)

lemmas example_decoders =
  example_decode_Load example_decode_Exists example_decode_List example_decode_Stat
  example_time_Parse strip_affixes_def

subsection \<open>UnmarshalCaddyfile\<close>

text \<open>
  C10. The claim reads the switch as assigning \<open>ApiKey\<close> for the keys \<^verbatim>\<open>apiKey\<close> and
  \<^verbatim>\<open>ApiKey\<close>. The code assigns it for \<^verbatim>\<open>ApiKey\<close> only: on the one-line Caddyfile
  \<^verbatim>\<open>apiKey SECRET\<close> the call returns nil and leaves both fields as they were, while the
  same line with the key \<^verbatim>\<open>ApiKey\<close> stores \<^verbatim>\<open>SECRET\<close>.
\<close>

theorem UnmarshalCaddyfile_apiKey_unassigned:
  "UnmarshalCaddyfile (\<lambda>t1 t2. Line t1 < Line t2) \<lparr>Endpoint = ''http://e/'', ApiKey = ''old''\<rparr>
     \<lparr>tokens = [\<lparr>Text = ''apiKey'', Line = 1\<rparr>, \<lparr>Text = ''SECRET'', Line = 1\<rparr>], cursor = - 1\<rparr>
   = (None, \<lparr>Endpoint = ''http://e/'', ApiKey = ''old''\<rparr>,
      \<lparr>tokens = [\<lparr>Text = ''apiKey'', Line = 1\<rparr>, \<lparr>Text = ''SECRET'', Line = 1\<rparr>], cursor = 1\<rparr>)
   \<and>
   UnmarshalCaddyfile (\<lambda>t1 t2. Line t1 < Line t2) \<lparr>Endpoint = ''http://e/'', ApiKey = ''old''\<rparr>
     \<lparr>tokens = [\<lparr>Text = ''ApiKey'', Line = 1\<rparr>, \<lparr>Text = ''SECRET'', Line = 1\<rparr>], cursor = - 1\<rparr>
   = (None, \<lparr>Endpoint = ''http://e/'', ApiKey = ''SECRET''\<rparr>,
      \<lparr>tokens = [\<lparr>Text = ''ApiKey'', Line = 1\<rparr>, \<lparr>Text = ''SECRET'', Line = 1\<rparr>], cursor = 1\<rparr>)"
  by (simp add: UnmarshalCaddyfile.simps d_Next_def d_Val_def d_Args_def d_NextArg_def
      nextOnSameLine_def switch_key_def Let_def)

subsection \<open>Exists\<close>

lemma Exists_true_only:
  assumes "Exists L S r ctx key w = Returned (True, w2)"
  shows "\<exists>resp'. client L S r ctx ''POST'' ''exists'' (ExistsRequest key) w
                    = Returned (Inr resp', w2) \<and>
                  StatusCode resp' = 200 \<and> decode_ExistsResponse L (Body resp') = Inr True"
  using assms unfolding Exists_def
  by (cases "client L S r ctx ''POST'' ''exists'' (ExistsRequest key) w")
    (auto split: sum.splits if_splits)

text \<open>
  C3. \<^verbatim>\<open>Exists\<close> has a boolean as its only result, so no error reaches the caller.
  Whenever the transport call returns, the boolean is false after a transport error, after
  a status other than 200 and after a body that does not decode; after status 200 with a
  body that decodes it is the \<^verbatim>\<open>exists\<close> field of the body. So the call returns true
  only when the remote has answered 200 with \<^verbatim>\<open>exists\<close> set.
\<close>

theorem Exists_swallows_failures:
  "(client L S r ctx ''POST'' ''exists'' (ExistsRequest key) w = Returned (Inl err, w1)
      \<longrightarrow> Exists L S r ctx key w = Returned (False, w1)) \<and>
   (client L S r ctx ''POST'' ''exists'' (ExistsRequest key) w = Returned (Inr resp, w1) \<and>
    StatusCode resp \<noteq> 200
      \<longrightarrow> Exists L S r ctx key w = Returned (False, w1)) \<and>
   (client L S r ctx ''POST'' ''exists'' (ExistsRequest key) w = Returned (Inr resp, w1) \<and>
    StatusCode resp = 200 \<and> decode_ExistsResponse L (Body resp) = Inl err
      \<longrightarrow> Exists L S r ctx key w = Returned (False, w1)) \<and>
   (client L S r ctx ''POST'' ''exists'' (ExistsRequest key) w = Returned (Inr resp, w1) \<and>
    StatusCode resp = 200 \<and> decode_ExistsResponse L (Body resp) = Inr b
      \<longrightarrow> Exists L S r ctx key w = Returned (b, w1)) \<and>
   (Exists L S r ctx key w = Returned (True, w2)
      \<longrightarrow> (\<exists>resp'. client L S r ctx ''POST'' ''exists'' (ExistsRequest key) w
                    = Returned (Inr resp', w2) \<and>
                  StatusCode resp' = 200 \<and> decode_ExistsResponse L (Body resp') = Inr True))"
  by (intro conjI impI Exists_true_only) (simp_all add: Exists_def)

theorem Exists_swallows_failures_witness:
  "(\<exists>w1. Exists example_library (scripted [refuse]) r0 ctx0 ''k'' w0 = Returned (False, w1)) \<and>
   (\<exists>w1. Exists example_library (scripted [respond 500 []]) r0 ctx0 ''k'' w0 = Returned (False, w1)) \<and>
   (\<exists>w1. Exists example_library (scripted [respond 200 ''<html>'']) r0 ctx0 ''k'' w0
            = Returned (False, w1)) \<and>
   (\<exists>w1. Exists example_library (scripted [respond 200 ''{\"exists\":true}'']) r0 ctx0 ''k'' w0
            = Returned (True, w1))"
proof -
  obtain e1 w1 where c1: "client example_library (scripted [refuse]) r0 ctx0 ''POST'' ''exists''
      (ExistsRequest ''k'') w0 = Returned (Inl e1, w1)"
    by (simp add: example_run)
  obtain resp2 w2 where c2: "client example_library (scripted [respond 500 []]) r0 ctx0 ''POST''
      ''exists'' (ExistsRequest ''k'') w0 = Returned (Inr resp2, w2)" and s2: "StatusCode resp2 \<noteq> 200"
    by (simp add: example_run)
  obtain resp3 w3 e3 where c3: "client example_library (scripted [respond 200 ''<html>'']) r0 ctx0
      ''POST'' ''exists'' (ExistsRequest ''k'') w0 = Returned (Inr resp3, w3)"
    and s3: "StatusCode resp3 = 200" and d3: "decode_ExistsResponse example_library (Body resp3) = Inl e3"
    by (simp add: example_run example_decoders)
  obtain resp4 w4 where c4: "client example_library (scripted [respond 200 ''{\"exists\":true}''])
      r0 ctx0 ''POST'' ''exists'' (ExistsRequest ''k'') w0 = Returned (Inr resp4, w4)"
    and s4: "StatusCode resp4 = 200"
    and d4: "decode_ExistsResponse example_library (Body resp4) = Inr True"
    by (simp add: example_run example_decoders)
  have "Exists example_library (scripted [refuse]) r0 ctx0 ''k'' w0 = Returned (False, w1)"
    by (rule Exists_swallows_failures [THEN conjunct1, rule_format]) (rule c1)
  moreover have "Exists example_library (scripted [respond 500 []]) r0 ctx0 ''k'' w0 = Returned (False, w2)"
    by (rule Exists_swallows_failures [THEN conjunct2, THEN conjunct1, rule_format])
      (rule conjI [OF c2 s2])
  moreover have "Exists example_library (scripted [respond 200 ''<html>'']) r0 ctx0 ''k'' w0
      = Returned (False, w3)"
    by (rule Exists_swallows_failures [THEN conjunct2, THEN conjunct2, THEN conjunct1, rule_format])
      (rule conjI [OF c3 conjI [OF s3 d3]])
  moreover have "Exists example_library (scripted [respond 200 ''{\"exists\":true}'']) r0 ctx0 ''k'' w0
      = Returned (True, w4)"
    by (rule Exists_swallows_failures
        [THEN conjunct2, THEN conjunct2, THEN conjunct2, THEN conjunct1, rule_format])
      (rule conjI [OF c4 conjI [OF s4 d4]])
  ultimately show ?thesis by blast
qed

subsection \<open>The not-found sentinel\<close>



subsection \<open>Stat and the timestamp\<close>

text \<open>
  C7. When the response to \<^verbatim>\<open>Stat\<close> has status 200 and its body decodes, but the
  \<^verbatim>\<open>modified\<close> field is refused by \<^verbatim>\<open>time.Parse\<close> for the layout RFC 3339,
  \<^verbatim>\<open>Stat\<close> returns the error of the parser and no \<^verbatim>\<open>KeyInfo\<close>.
\<close>

theorem Stat_malformed_modified:
  "client L S r ctx ''POST'' ''stat'' (StatRequest key) w = Returned (Inr resp, w1) \<and>
   StatusCode resp = 200 \<and> decode_StatResponse L (Body resp) = Inr statResp \<and>
   time_Parse_RFC3339 L (resp_Modified statResp) = Inl err
     \<longrightarrow> Stat L S r ctx key w = Returned (Inl err, w1) \<and>
         (\<forall>info w'. Stat L S r ctx key w \<noteq> Returned (Inr info, w'))"
  by (simp add: Stat_def)

theorem Stat_malformed_modified_witness:
  "\<exists>w1. Stat example_library
      (scripted [respond 200 ''{\"key\":\"k\",\"modified\":\"yesterday\",\"size\":3,\"isTerminal\":true}''])
      r0 ctx0 ''k'' w0 = Returned (Inl (LibraryError ''parsing time: cannot parse''), w1)"
proof -
  let ?S = "scripted [respond 200 ''{\"key\":\"k\",\"modified\":\"yesterday\",\"size\":3,\"isTerminal\":true}'']"
  obtain resp w1 sr where c: "client example_library ?S r0 ctx0 ''POST'' ''stat''
      (StatRequest ''k'') w0 = Returned (Inr resp, w1)" and s: "StatusCode resp = 200"
    and d: "decode_StatResponse example_library (Body resp) = Inr sr"
    and t: "time_Parse_RFC3339 example_library (resp_Modified sr)
      = Inl (LibraryError ''parsing time: cannot parse'')"
    by (simp add: example_run example_decoders)
  have "Stat example_library ?S r0 ctx0 ''k'' w0
      = Returned (Inl (LibraryError ''parsing time: cannot parse''), w1)"
    using Stat_malformed_modified [of example_library ?S r0 ctx0 "''k''" w0 resp w1 sr
        "LibraryError ''parsing time: cannot parse''"] c s d t
    by simp
  then show ?thesis by blast
qed

subsection \<open>List\<close>

text \<open>
  C9. When the response to \<^verbatim>\<open>List\<close> has status 200 and its body decodes to the keys
  \<open>keys\<close>, \<^verbatim>\<open>List\<close> returns \<open>keys\<close> itself: the same elements in the same order, with
  their repetitions, whatever the flag \<open>recursive\<close>.
\<close>

theorem List_returns_keys_verbatim:
  "client L S r ctx ''POST'' ''list'' (ListRequest prefix recursive) w = Returned (Inr resp, w1) \<and>
   StatusCode resp = 200 \<and> decode_ListResponse L (Body resp) = Inr keys
     \<longrightarrow> List L S r ctx prefix recursive w = Returned (Inr keys, w1)"
  by (simp add: List_def)

theorem List_returns_keys_verbatim_witness:
  "(\<exists>w1. List example_library (scripted [respond 200 ''{\"keys\":[\"b\",\"a\",\"b\"]}'']) r0 ctx0
            ''p'' True w0 = Returned (Inr [''b'', ''a'', ''b''], w1)) \<and>
   (\<exists>w1. List example_library (scripted [respond 200 ''{\"keys\":[\"a/x\"]}'']) r0 ctx0
            ''p'' False w0 = Returned (Inr [''a/x''], w1))"
proof -
  let ?S1 = "scripted [respond 200 ''{\"keys\":[\"b\",\"a\",\"b\"]}'']"
  let ?S2 = "scripted [respond 200 ''{\"keys\":[\"a/x\"]}'']"
  obtain resp1 w1 where c1: "client example_library ?S1 r0 ctx0 ''POST'' ''list''
      (ListRequest ''p'' True) w0 = Returned (Inr resp1, w1)" and s1: "StatusCode resp1 = 200"
    and d1: "decode_ListResponse example_library (Body resp1) = Inr [''b'', ''a'', ''b'']"
    by (simp add: example_run example_decoders)
  obtain resp2 w2 where c2: "client example_library ?S2 r0 ctx0 ''POST'' ''list''
      (ListRequest ''p'' False) w0 = Returned (Inr resp2, w2)" and s2: "StatusCode resp2 = 200"
    and d2: "decode_ListResponse example_library (Body resp2) = Inr [''a/x'']"
    by (simp add: example_run example_decoders)
  have "List example_library ?S1 r0 ctx0 ''p'' True w0 = Returned (Inr [''b'', ''a'', ''b''], w1)"
    using List_returns_keys_verbatim [of example_library ?S1 r0 ctx0 "''p''" True w0 resp1 w1
        "[''b'', ''a'', ''b'']"] c1 s1 d1
    by simp
  moreover have "List example_library ?S2 r0 ctx0 ''p'' False w0 = Returned (Inr [''a/x''], w2)"
    using List_returns_keys_verbatim [of example_library ?S2 r0 ctx0 "''p''" False w0 resp2 w2
        "[''a/x'']"] c2 s2 d2
    by simp
  ultimately show ?thesis by blast
qed

subsection \<open>Unknown status codes\<close>






subsection \<open>The transport call is not total\<close>

text \<open>
  C4. The claim wants a failure of the request constructor handed back as an error. The
  code does not look at that error: whenever the payload marshals and
  \<^verbatim>\<open>http.NewRequestWithContext\<close> fails (a method that is not a token, a URL that does not
  parse), \<^verbatim>\<open>client\<close> panics on the nil request, for every remote and every world.
\<close>

theorem client_panics_when_request_construction_fails:
  "json_Marshal L dataStruct = Inr requestBody \<and>
   http_NewRequestWithContext L ctx method (Endpoint r @ path) requestBody = Inl err
     \<longrightarrow> client L S r ctx method path dataStruct w = Panic"
  by (simp add: client_def)

theorem client_panics_when_request_construction_fails_witness:
  "client example_library (scripted [respond 201 []])
     \<lparr>Endpoint = ''https://api.example.com'' @ [CHR 0x0A] @ ''/'', ApiKey = ''secret''\<rparr>
     ctx0 ''POST'' ''lock'' (LockRequest ''k'') w0 = Panic \<and>
   client example_library (scripted [respond 201 []]) r0 ctx0 ''BAD METHOD'' ''lock''
     (LockRequest ''k'') w0 = Panic"
proof -
  let ?bad = "\<lparr>Endpoint = ''https://api.example.com'' @ [CHR 0x0A] @ ''/'', ApiKey = ''secret''\<rparr>"
  have m: "json_Marshal example_library (LockRequest ''k'') = Inr (marshal_payload (LockRequest ''k''))"
    by (rule example_Marshal)
  have u: "http_NewRequestWithContext example_library ctx0 ''POST'' (Endpoint ?bad @ ''lock'')
      (marshal_payload (LockRequest ''k''))
      = Inl (LibraryError ''net/url: invalid control character in URL'')"
    by (simp add: http_NewRequestWithContext_def validMethod_POST example_library_def
        stringContainsCTLByte_def)
  have v: "http_NewRequestWithContext example_library ctx0 ''BAD METHOD'' (Endpoint r0 @ ''lock'')
      (marshal_payload (LockRequest ''k''))
      = Inl (Errorf ''net/http: invalid method \"BAD METHOD\"'')"
    by (simp add: http_NewRequestWithContext_def validMethod_def isTokenRune_def)
  have "client example_library (scripted [respond 201 []]) ?bad ctx0 ''POST'' ''lock''
      (LockRequest ''k'') w0 = Panic"
    using client_panics_when_request_construction_fails
      [of example_library "LockRequest ''k''" _ ctx0 "''POST''" ?bad "''lock''"] m u
    by blast
  moreover have "client example_library (scripted [respond 201 []]) r0 ctx0 ''BAD METHOD'' ''lock''
      (LockRequest ''k'') w0 = Panic"
    using client_panics_when_request_construction_fails
      [of example_library "LockRequest ''k''" _ ctx0 "''BAD METHOD''" r0 "''lock''"] m v
    by blast
  ultimately show ?thesis by blast
qed

subsection \<open>Store, Load and the base64 codec\<close>

lemma length_encodeStd: "length encodeStd = 64"
  by (simp add: encodeStd_def)

lemma distinct_encodeStd: "distinct encodeStd"
  by (simp add: encodeStd_def)

lemma index_of_nth:
  "distinct xs \<Longrightarrow> i < length xs \<Longrightarrow> index_of (xs ! i) xs k = Some (k + i)"
proof (induction xs arbitrary: i k)
  case Nil
  then show ?case by simp
next
  case (Cons x xs)
  show ?case
  proof (cases i)
    case 0
    then show ?thesis by simp
  next
    case (Suc j)
    with Cons.prems have "j < length xs" and "xs ! j \<noteq> x" and "distinct xs"
      by auto
    with Cons.IH [of j "Suc k"] Suc show ?thesis by simp
  qed
qed

lemma decodeMap_enc_digit: "decodeMap (enc_digit v) = Some (v mod 64)"
  using index_of_nth [OF distinct_encodeStd, of "v mod 64" 0]
  by (simp add: decodeMap_def enc_digit_def length_encodeStd)

lemma enc_digit_in: "enc_digit v \<in> set encodeStd"
  by (simp add: enc_digit_def length_encodeStd)
lemma digits24:
  fixes v :: nat
  assumes "v < 16777216"
  shows "v div 262144 mod 64 * 262144 + v div 4096 mod 64 * 4096 + v div 64 mod 64 * 64 + v mod 64 = v"
proof -
  define A B C D where "A = v div 262144 mod 64" and "B = v div 4096 mod 64"
    and "C = v div 64 mod 64" and "D = v mod 64"
  have "v mod (262144 * 64) = 262144 * (v div 262144 mod 64) + v mod 262144"
    by (rule mod_mult2_eq)
  moreover have "v mod 16777216 = v"
    using assms by simp
  ultimately have e1: "v = 262144 * A + v mod 262144"
    by (simp add: A_def)
  have "v mod (4096 * 64) = 4096 * (v div 4096 mod 64) + v mod 4096"
    by (rule mod_mult2_eq)
  then have e2: "v mod 262144 = 4096 * B + v mod 4096"
    by (simp add: B_def)
  have "v mod (64 * 64) = 64 * (v div 64 mod 64) + v mod 64"
    by (rule mod_mult2_eq)
  then have e3: "v mod 4096 = 64 * C + D"
    by (simp add: C_def D_def)
  from e1 e2 e3 have "A * 262144 + B * 4096 + C * 64 + D = v"
    by linarith
  then show ?thesis
    unfolding A_def B_def C_def D_def .
qed

lemma bytes24:
  fixes a b c :: nat
  assumes "a < 256" "b < 256" "c < 256"
  shows "a * 65536 + b * 256 + c < 16777216"
    and "(a * 65536 + b * 256 + c) div 65536 = a"
    and "(a * 65536 + b * 256 + c) div 256 = a * 256 + b"
  using assms by simp_all

lemma word8_low: "(of_nat (x * 256 + y) :: 8 word) = of_nat y"
  unfolding word_of_nat_eq_iff take_bit_eq_mod by simp

lemma unat8: "unat (b :: 8 word) < 256"
  using unsigned_less [of b] by simp
lemma pad_not_in: "CHR ''='' \<notin> set encodeStd"
  by (simp add: encodeStd_def)

lemma newline_not_in: "CHR 0x0A \<notin> set encodeStd \<and> CHR 0x0D \<notin> set encodeStd"
  by (simp add: encodeStd_def)

lemma enc_digit_not_pad: "enc_digit v \<noteq> CHR ''=''"
  using enc_digit_in [of v] pad_not_in by metis

lemma enc_digit_not_newline: "enc_digit v \<noteq> CHR 0x0A \<and> enc_digit v \<noteq> CHR 0x0D"
  using enc_digit_in [of v] newline_not_in by metis

lemma low_digits_zero:
  fixes a b :: nat
  shows "(a * 65536) div 64 mod 64 = 0" and "(a * 65536) mod 64 = 0"
    and "(a * 65536 + b * 256) mod 64 = 0"
  by simp_all

lemma decode_three:
  fixes b0 b1 b2 :: byte
  defines "v \<equiv> unat b0 * 65536 + unat b1 * 256 + unat b2"
  shows "decode_quanta (enc_digit (v div 262144) # enc_digit (v div 4096) # enc_digit (v div 64) #
           enc_digit v # rest)
         = (case decode_quanta rest of Inl err \<Rightarrow> Inl err | Inr dst \<Rightarrow> Inr (b0 # b1 # b2 # dst))"
proof -
  have lt: "v < 16777216"
    unfolding v_def using unat8 [of b0] unat8 [of b1] unat8 [of b2] by (rule bytes24)
  have b: "(of_nat (v div 65536) :: byte) = b0" "(of_nat (v div 256) :: byte) = b1"
    "(of_nat v :: byte) = b2"
  proof -
    have "v div 65536 = unat b0"
      unfolding v_def using unat8 [of b0] unat8 [of b1] unat8 [of b2] by (rule bytes24)
    then show "(of_nat (v div 65536) :: byte) = b0"
      by simp
    have "v div 256 = unat b0 * 256 + unat b1"
      unfolding v_def using unat8 [of b0] unat8 [of b1] unat8 [of b2] by (rule bytes24)
    then show "(of_nat (v div 256) :: byte) = b1"
      by (simp only: word8_low) simp
    have "v = (unat b0 * 256 + unat b1) * 256 + unat b2"
      by (simp add: v_def)
    then show "(of_nat v :: byte) = b2"
      by (simp only: word8_low) simp
  qed
  show ?thesis
    by (simp only: decode_quanta.simps decodeMap_enc_digit enc_digit_not_pad digits24 [OF lt] b
        Let_def prod.case option.case if_False)
qed

lemma decode_two:
  fixes b0 b1 :: byte
  defines "v \<equiv> unat b0 * 65536 + unat b1 * 256"
  shows "decode_quanta [enc_digit (v div 262144), enc_digit (v div 4096), enc_digit (v div 64), CHR ''='']
         = Inr [b0, b1]"
proof -
  have v0: "v = unat b0 * 65536 + unat b1 * 256 + 0"
    by (simp add: v_def)
  have lt: "v < 16777216"
    unfolding v0 using unat8 [of b0] unat8 [of b1] by (intro bytes24) simp_all
  have z: "v mod 64 = 0"
    unfolding v_def by (rule low_digits_zero)
  have d: "v div 262144 mod 64 * 262144 + v div 4096 mod 64 * 4096 + v div 64 mod 64 * 64 = v"
    using digits24 [OF lt] unfolding z by (simp only: add_0_right)
  have "v div 65536 = unat b0"
    unfolding v0 using unat8 [of b0] unat8 [of b1] by (intro bytes24) simp_all
  then have b0: "(of_nat (v div 65536) :: byte) = b0"
    by simp
  have "v div 256 = unat b0 * 256 + unat b1"
    unfolding v0 using unat8 [of b0] unat8 [of b1] by (intro bytes24) simp_all
  then have b1: "(of_nat (v div 256) :: byte) = b1"
    by (simp only: word8_low) simp
  show ?thesis
    by (simp only: decode_quanta.simps decodeMap_enc_digit enc_digit_not_pad d b0 b1
        Let_def prod.case option.case if_False if_True simp_thms)
qed

lemma decode_one:
  fixes b0 :: byte
  defines "v \<equiv> unat b0 * 65536"
  shows "decode_quanta [enc_digit (v div 262144), enc_digit (v div 4096), CHR ''='', CHR ''='']
         = Inr [b0]"
proof -
  have v0: "v = unat b0 * 65536 + 0 * 256 + 0"
    by (simp add: v_def)
  have lt: "v < 16777216"
    unfolding v0 using unat8 [of b0] by (intro bytes24) simp_all
  have z: "v mod 64 = 0" "v div 64 mod 64 = 0"
    unfolding v_def by (rule low_digits_zero)+
  have d: "v div 262144 mod 64 * 262144 + v div 4096 mod 64 * 4096 = v"
    using digits24 [OF lt] unfolding z by (simp only: mult_zero_left add_0_right)
  have "v div 65536 = unat b0"
    by (simp add: v_def)
  then have b0: "(of_nat (v div 65536) :: byte) = b0"
    by simp
  show ?thesis
    by (simp only: decode_quanta.simps decodeMap_enc_digit enc_digit_not_pad d b0
        Let_def prod.case option.case if_False if_True simp_thms)
qed

lemma decode_quanta_EncodeToString: "decode_quanta (EncodeToString src) = Inr src"
proof (induction src rule: EncodeToString.induct)
  case 1
  show ?case by simp
next
  case (2 b0)
  show ?case
    unfolding EncodeToString.simps Let_def by (rule decode_one)
next
  case (3 b0 b1)
  show ?case
    unfolding EncodeToString.simps Let_def by (rule decode_two)
next
  case (4 b0 b1 b2 src)
  show ?case
    unfolding EncodeToString.simps Let_def decode_three "4.IH" [OF refl] by simp
qed

lemma EncodeToString_no_newline:
  "filter (\<lambda>c. c \<noteq> CHR 0x0A \<and> c \<noteq> CHR 0x0D) (EncodeToString src) = EncodeToString src"
  by (induction src rule: EncodeToString.induct) (simp_all add: Let_def enc_digit_not_newline)

lemma DecodeString_EncodeToString: "DecodeString (EncodeToString src) = Inr src"
  by (simp add: DecodeString_def EncodeToString_no_newline decode_quanta_EncodeToString)

text \<open>The model of the codec on the test vectors of RFC 4648, section 10.\<close>

lemma EncodeToString_RFC4648:
  "EncodeToString [] = []"
  "EncodeToString [0x66] = ''Zg==''"
  "EncodeToString [0x66, 0x6F] = ''Zm8=''"
  "EncodeToString [0x66, 0x6F, 0x6F] = ''Zm9v''"
  "EncodeToString [0x66, 0x6F, 0x6F, 0x62] = ''Zm9vYg==''"
  "EncodeToString [0x66, 0x6F, 0x6F, 0x62, 0x61] = ''Zm9vYmE=''"
  "EncodeToString [0x66, 0x6F, 0x6F, 0x62, 0x61, 0x72] = ''Zm9vYmFy''"
  by (simp_all add: enc_digit_def encodeStd_def)

lemma DecodeString_corrupt:
  "DecodeString ''Zg='' = Inl CorruptInputError"
  "DecodeString ''Zg==Zg=='' = Inl CorruptInputError"
  "DecodeString ''Z*=='' = Inl CorruptInputError"
  by (simp_all add: DecodeString_def decodeMap_def encodeStd_def)

lemma client_response_request:
  assumes "client L S r ctx m path d w = Returned (Inr resp, w1)"
  shows "\<exists>body req. json_Marshal L d = Inr body \<and> sent w1 = sent w @ [req] \<and>
           req_body req = body \<and> req_url req = Endpoint r @ path"
  using assms
  by (auto simp: client_def http_Do_def http_NewRequestWithContext_def Header_Add_def Let_def
      split: sum.splits prod.splits if_splits option.splits)

text \<open>
  C8. \<^verbatim>\<open>DecodeString\<close> undoes \<^verbatim>\<open>EncodeToString\<close> on every byte sequence. A
  \<^verbatim>\<open>Store\<close> that succeeds has sent one request, to \<^verbatim>\<open>store\<close>, whose body is the
  marshalled struct with the key and the base64 text of the value. A \<^verbatim>\<open>Load\<close> whose
  response has status 200 and carries that text in its \<^verbatim>\<open>value\<close> field returns the
  value, byte for byte.
\<close>

theorem Store_then_Load_round_trip:
  "DecodeString (EncodeToString val) = Inr val \<and>
   (Store L S r ctx key val w = Returned (None, w1)
      \<longrightarrow> (\<exists>body req. json_Marshal L (StoreRequest key (EncodeToString val)) = Inr body \<and>
            sent w1 = sent w @ [req] \<and> req_body req = body \<and>
            req_url req = Endpoint r @ ''store'')) \<and>
   (client L S r ctx ''POST'' ''load'' (LoadRequest key) w2 = Returned (Inr resp, w3) \<and>
    StatusCode resp = 200 \<and> decode_LoadResponse L (Body resp) = Inr (EncodeToString val)
      \<longrightarrow> Load L S r ctx key w2 = Returned (Inr val, w3))"
proof (intro conjI impI)
  show "DecodeString (EncodeToString val) = Inr val"
    by (rule DecodeString_EncodeToString)
next
  assume "Store L S r ctx key val w = Returned (None, w1)"
  then obtain resp where
    "client L S r ctx ''POST'' ''store'' (StoreRequest key (EncodeToString val)) w
       = Returned (Inr resp, w1)"
    by (auto simp: Store_def Let_def split: outcome.splits prod.splits sum.splits if_splits)
  then show "\<exists>body req. json_Marshal L (StoreRequest key (EncodeToString val)) = Inr body \<and>
      sent w1 = sent w @ [req] \<and> req_body req = body \<and> req_url req = Endpoint r @ ''store''"
    by (rule client_response_request)
next
  assume "client L S r ctx ''POST'' ''load'' (LoadRequest key) w2 = Returned (Inr resp, w3) \<and>
    StatusCode resp = 200 \<and> decode_LoadResponse L (Body resp) = Inr (EncodeToString val)"
  then show "Load L S r ctx key w2 = Returned (Inr val, w3)"
    by (simp add: Load_def DecodeString_EncodeToString)
qed

lemma EncodeToString_example: "EncodeToString [0, 255, 16, 128, 7] = ''AP8QgAc=''"
  by (simp add: enc_digit_def encodeStd_def)

theorem Store_then_Load_round_trip_witness:
  "\<exists>w1 w2.
     Store example_library (scripted [respond 201 [], respond 200 ''{\"value\":\"AP8QgAc=\"}''])
       r0 ctx0 ''k'' [0, 255, 16, 128, 7] w0 = Returned (None, w1) \<and>
     req_body (last (sent w1)) = ''{\"key\":\"k\",\"value\":\"AP8QgAc=\"}'' \<and>
     Load example_library (scripted [respond 201 [], respond 200 ''{\"value\":\"AP8QgAc=\"}''])
       r0 ctx0 ''k'' w1 = Returned (Inr [0, 255, 16, 128, 7], w2)"
proof -
  let ?S = "scripted [respond 201 [], respond 200 ''{\"value\":\"AP8QgAc=\"}'']"
  let ?L = example_library
  let ?v = "[0, 255, 16, 128, 7] :: byte list"
  obtain w1 where st: "Store ?L ?S r0 ctx0 ''k'' ?v w0 = Returned (None, w1)"
    and n1: "length (sent w1) = 1"
    by (simp add: Store_def example_run)
  from n1 obtain resp w2 where c: "client ?L ?S r0 ctx0 ''POST'' ''load'' (LoadRequest ''k'') w1
      = Returned (Inr resp, w2)" and s: "StatusCode resp = 200"
    and d': "decode_LoadResponse ?L (Body resp) = Inr ''AP8QgAc=''"
    by (simp add: example_run example_decoders)
  from d' have d: "decode_LoadResponse ?L (Body resp) = Inr (EncodeToString ?v)"
    by (simp only: EncodeToString_example)
  note rt = Store_then_Load_round_trip [of ?v ?L ?S r0 ctx0 "''k''" w0 w1 w1 resp w2]
  from rt st obtain body req where m: "json_Marshal ?L (StoreRequest ''k'' (EncodeToString ?v)) = Inr body"
    and sw: "sent w1 = sent w0 @ [req]" and b: "req_body req = body"
    by blast
  from m have "body = ''{\"key\":\"k\",\"value\":\"AP8QgAc=\"}''"
    unfolding EncodeToString_example by (simp add: example_Marshal quoted_def)
  with sw b have "req_body (last (sent w1)) = ''{\"key\":\"k\",\"value\":\"AP8QgAc=\"}''"
    by simp
  moreover from rt c s d have "Load ?L ?S r0 ctx0 ''k'' w1 = Returned (Inr ?v, w2)"
    by blast
  ultimately show ?thesis using st by blast
qed

subsection \<open>The lock loop\<close>

lemma client_live:
  assumes "json_Marshal L d = Inr body" and "m \<noteq> []" and "validMethod m"
    and "url_Parse L (Endpoint r @ path) = None"
    and "live ctx (now w + latency (S (length (sent w))))"
  shows "client L S r ctx m path d w =
    Returned (result (S (length (sent w))),
      w\<lparr>sent := sent w @ [sent_request r ctx m path body],
        now := now w + latency (S (length (sent w)))\<rparr>)"
proof -
  have "http_Do S (sent_request r ctx m path body) w =
      (result (S (length (sent w))),
       w\<lparr>sent := sent w @ [sent_request r ctx m path body],
         now := now w + latency (S (length (sent w)))\<rparr>)"
    using assms(5)
    by (auto simp: http_Do_def ctx_Done_def live_def sent_request_def Let_def split: option.splits)
  then show ?thesis
    using client_sends [OF assms(1-4), of S ctx w] by (simp add: sent_request_def)
qed

lemma client_done:
  assumes "json_Marshal L d = Inr body" and "m \<noteq> []" and "validMethod m"
    and "url_Parse L (Endpoint r @ path) = None"
    and "cancel_at ctx = Some c" and "c \<le> now w"
  shows "client L S r ctx m path d w = Returned (Inl Canceled, w)"
  using client_sends [OF assms(1-4), of S ctx w] assms(5,6)
  by (simp add: http_Do_def ctx_Done_def)

lemma client_aborted:
  assumes "json_Marshal L d = Inr body" and "m \<noteq> []" and "validMethod m"
    and "url_Parse L (Endpoint r @ path) = None"
    and "cancel_at ctx = Some c" and "now w < c" and "c < now w + latency (S (length (sent w)))"
  shows "client L S r ctx m path d w =
    Returned (Inl Canceled, w\<lparr>sent := sent w @ [sent_request r ctx m path body], now := c\<rparr>)"
  using client_sends [OF assms(1-4), of S ctx w] assms(5-7)
  by (simp add: http_Do_def ctx_Done_def sent_request_def Let_def)

lemma Lock_retry_once:
  assumes m: "json_Marshal L (LockRequest key) = Inr body"
    and u: "url_Parse L (Endpoint r @ ''lock'') = None"
    and l: "live ctx (now w + latency (S (length (sent w))))"
    and t: "retries (S (length (sent w)))"
  shows "\<exists>w'. Lock L S r ctx key w = Lock L S r ctx key w' \<and>
    sent w' = sent w @ [sent_request r ctx ''POST'' ''lock'' body] \<and>
    now w' = now w + latency (S (length (sent w))) + 5 * Second"
proof -
  let ?w1 = "w\<lparr>sent := sent w @ [sent_request r ctx ''POST'' ''lock'' body],
    now := now w + latency (S (length (sent w)))\<rparr>"
  have c: "client L S r ctx ''POST'' ''lock'' (LockRequest key) w
      = Returned (result (S (length (sent w))), ?w1)"
    using m _ validMethod_POST u l by (rule client_live) simp
  from t obtain resp where r: "result (S (length (sent w))) = Inr resp"
    and s: "StatusCode resp = 423 \<or> StatusCode resp = 412"
    by (auto simp: retries_def split: sum.splits)
  from s show ?thesis
  proof
    assume "StatusCode resp = 423"
    then have "Lock L S r ctx key w = Lock L S r ctx key
        (time_Sleep (5 * Second) (logger_Info (''Key '' @ key @ '' is already locked.'') ?w1))"
      by (subst Lock.simps) (simp add: c r)
    then show ?thesis
      by (intro exI conjI) (assumption, simp_all add: time_Sleep_def logger_Info_def)
  next
    assume "StatusCode resp = 412"
    then have "Lock L S r ctx key w = Lock L S r ctx key
        (time_Sleep (5 * Second)
           (logger_Error
              (''Error locking key '' @ key @ '': '' @ itoa (StatusCode resp) @
               '' ; Will try again.'' @ [CHR 0x0A]) ?w1))"
      by (subst Lock.simps) (simp add: c r)
    then show ?thesis
      by (intro exI conjI) (assumption, simp_all add: time_Sleep_def logger_Error_def)
  qed
qed

lemma reply_time_0: "reply_time S w 0 = now w + latency (S (length (sent w)))"
  by (simp add: reply_time_def)

lemma reply_time_Suc:
  assumes "sent w' = sent w @ [req]" and "now w' = now w + latency (S (length (sent w))) + 5 * Second"
  shows "reply_time S w (Suc i) = reply_time S w' i"
proof -
  have "(\<Sum>j\<le>Suc i. latency (S (length (sent w) + j)))
      = latency (S (length (sent w))) + (\<Sum>j\<le>i. latency (S (length (sent w) + Suc j)))"
    by (simp add: sum.atMost_Suc_shift del: sum.atMost_Suc)
  then show ?thesis
    using assms by (simp add: reply_time_def)
qed

lemma Lock_after_retries:
  assumes m: "json_Marshal L (LockRequest key) = Inr body"
    and u: "url_Parse L (Endpoint r @ ''lock'') = None"
  shows "(\<forall>i<n. retries (S (length (sent w) + i))) \<Longrightarrow> (\<forall>i<n. live ctx (reply_time S w i)) \<Longrightarrow>
    \<exists>w'. Lock L S r ctx key w = Lock L S r ctx key w' \<and>
      sent w' = sent w @ replicate n (sent_request r ctx ''POST'' ''lock'' body) \<and>
      now w' = now w + n * (5 * Second) + (\<Sum>i<n. latency (S (length (sent w) + i)))"
proof (induction n arbitrary: w)
  case 0
  show ?case by (intro exI [of _ w]) simp
next
  case (Suc n)
  let ?req = "sent_request r ctx ''POST'' ''lock'' body"
  from Suc.prems have "retries (S (length (sent w)))" and "live ctx (reply_time S w 0)"
    by (auto dest: spec [of _ 0])
  then obtain w1 where e1: "Lock L S r ctx key w = Lock L S r ctx key w1"
    and s1: "sent w1 = sent w @ [?req]"
    and n1: "now w1 = now w + latency (S (length (sent w))) + 5 * Second"
    using Lock_retry_once [OF m u, of ctx w S] by (auto simp: reply_time_0)
  have "\<forall>i<n. retries (S (length (sent w1) + i))"
    using Suc.prems(1) s1 by (auto dest: spec [of _ "Suc _"])
  moreover have "\<forall>i<n. live ctx (reply_time S w1 i)"
    using Suc.prems(2) reply_time_Suc [where S = S, OF s1 n1] by (auto dest: spec [of _ "Suc _"])
  ultimately obtain w' where e2: "Lock L S r ctx key w1 = Lock L S r ctx key w'"
    and s2: "sent w' = sent w1 @ replicate n ?req"
    and n2: "now w' = now w1 + n * (5 * Second) + (\<Sum>i<n. latency (S (length (sent w1) + i)))"
    using Suc.IH [of w1] by blast
  have "(\<Sum>i<Suc n. latency (S (length (sent w) + i)))
      = latency (S (length (sent w))) + (\<Sum>i<n. latency (S (length (sent w) + Suc i)))"
    by (simp add: sum.lessThan_Suc_shift del: sum.lessThan_Suc)
  with e1 e2 s1 s2 n1 n2 show ?case
    by (intro exI [of _ w']) (simp add: replicate_app_Cons_same)
qed




subsection \<open>Cancellation\<close>

lemma reply_time_mono: "i \<le> j \<Longrightarrow> reply_time S w i \<le> reply_time S w j"
proof -
  assume ij: "i \<le> j"
  then have "(\<Sum>k\<le>i. latency (S (length (sent w) + k))) \<le> (\<Sum>k\<le>j. latency (S (length (sent w) + k)))"
    by (intro sum_mono2) auto
  moreover from ij have "i * (5 * Second) \<le> j * (5 * Second)"
    by simp
  ultimately show ?thesis
    by (simp add: reply_time_def add_mono)
qed

lemma Lock_transport_error:
  assumes "client L S r ctx ''POST'' ''lock'' (LockRequest key) w = Returned (Inl err, w1)"
  shows "Lock L S r ctx key w = Some (Returned (Some err, w1))"
  by (subst Lock.simps) (simp add: assms)

text \<open>
  C2. Let the payload marshal and the URL parse, let the caller cancel the context at the
  instant \<open>c\<close>, and let the first n replies have status 423 or 412. If \<open>c\<close> falls into
  the wait that follows the n-th reply, the call sleeps to the end of that wait, finds the
  context done when it next calls the transport, and returns the cancellation error: less
  than five seconds after \<open>c\<close>, and with no request beyond the n already answered. If \<open>c\<close>
  falls between the sending of request n + 1 and the arrival of its reply, the exchange is
  aborted and the call returns the cancellation error at \<open>c\<close>.
\<close>

theorem Lock_cancellation:
  assumes "json_Marshal L (LockRequest key) = Inr body"
    and "url_Parse L (Endpoint r @ ''lock'') = None"
    and "cancel_at ctx = Some c"
    and "\<forall>i<n. retries (S (length (sent w) + i))"
  shows
    "(0 < n \<and> reply_time S w (n - 1) < c \<and> c \<le> reply_time S w (n - 1) + 5 * Second \<longrightarrow>
        (\<exists>w'. Lock L S r ctx key w = Some (Returned (Some Canceled, w')) \<and>
              sent w' = sent w @ replicate n (sent_request r ctx ''POST'' ''lock'' body) \<and>
              now w' = reply_time S w (n - 1) + 5 * Second \<and> now w' < c + 5 * Second)) \<and>
     (reply_time S w n < c + latency (S (length (sent w) + n)) \<and> c < reply_time S w n \<longrightarrow>
        (\<exists>w'. Lock L S r ctx key w = Some (Returned (Some Canceled, w')) \<and>
              sent w' = sent w @ replicate (Suc n) (sent_request r ctx ''POST'' ''lock'' body) \<and>
              now w' = c))"
proof (intro conjI impI)
  let ?req = "sent_request r ctx ''POST'' ''lock'' body"
  assume h: "0 < n \<and> reply_time S w (n - 1) < c \<and> c \<le> reply_time S w (n - 1) + 5 * Second"
  then obtain m where n: "n = Suc m"
    by (cases n) auto
  have "\<forall>i<n. live ctx (reply_time S w i)"
  proof (intro allI impI)
    fix i assume "i < n"
    then have "reply_time S w i \<le> reply_time S w m"
      using n by (intro reply_time_mono) simp
    with h n show "live ctx (reply_time S w i)"
      by (simp add: live_def assms(3))
  qed
  with assms(4) obtain w' where e: "Lock L S r ctx key w = Lock L S r ctx key w'"
    and s: "sent w' = sent w @ replicate n ?req"
    and t: "now w' = now w + n * (5 * Second) + (\<Sum>i<n. latency (S (length (sent w) + i)))"
    using Lock_after_retries [OF assms(1,2), of n S w ctx] by blast
  from t n have t': "now w' = reply_time S w (n - 1) + 5 * Second"
    by (simp add: reply_time_def lessThan_Suc_atMost)
  with h have "c \<le> now w'"
    by simp
  then have "client L S r ctx ''POST'' ''lock'' (LockRequest key) w' = Returned (Inl Canceled, w')"
    using assms(1) _ validMethod_POST assms(2,3) by (intro client_done) simp_all
  then have "Lock L S r ctx key w' = Some (Returned (Some Canceled, w'))"
    by (rule Lock_transport_error)
  with e s t' h show "\<exists>w'. Lock L S r ctx key w = Some (Returned (Some Canceled, w')) \<and>
      sent w' = sent w @ replicate n ?req \<and>
      now w' = reply_time S w (n - 1) + 5 * Second \<and> now w' < c + 5 * Second"
    by auto
next
  let ?req = "sent_request r ctx ''POST'' ''lock'' body"
  assume h: "reply_time S w n < c + latency (S (length (sent w) + n)) \<and> c < reply_time S w n"
  have "\<forall>i<n. live ctx (reply_time S w i)"
  proof (intro allI impI)
    fix i assume i: "i < n"
    then obtain m where n: "n = Suc m"
      by (cases n) auto
    from i n have "reply_time S w i \<le> reply_time S w m"
      by (intro reply_time_mono) simp
    moreover have "reply_time S w n = reply_time S w m + 5 * Second + latency (S (length (sent w) + n))"
      by (simp add: n reply_time_def)
    ultimately show "live ctx (reply_time S w i)"
      using h by (simp add: live_def assms(3))
  qed
  with assms(4) obtain w0 where e: "Lock L S r ctx key w = Lock L S r ctx key w0"
    and s: "sent w0 = sent w @ replicate n ?req"
    and t: "now w0 = now w + n * (5 * Second) + (\<Sum>i<n. latency (S (length (sent w) + i)))"
    using Lock_after_retries [OF assms(1,2), of n S w ctx] by blast
  have rt: "now w0 + latency (S (length (sent w0))) = reply_time S w n"
    using s t by (simp add: reply_time_def lessThan_Suc_atMost [symmetric])
  with h s have "now w0 < c" and "c < now w0 + latency (S (length (sent w0)))"
    by simp_all
  then have "client L S r ctx ''POST'' ''lock'' (LockRequest key) w0
      = Returned (Inl Canceled, w0\<lparr>sent := sent w0 @ [?req], now := c\<rparr>)"
    using assms(1) _ validMethod_POST assms(2,3) by (intro client_aborted) simp_all
  then have "Lock L S r ctx key w0 = Some (Returned (Some Canceled, w0\<lparr>sent := sent w0 @ [?req], now := c\<rparr>))"
    by (rule Lock_transport_error)
  with e s show "\<exists>w'. Lock L S r ctx key w = Some (Returned (Some Canceled, w')) \<and>
      sent w' = sent w @ replicate (Suc n) ?req \<and> now w' = c"
    by (auto simp: replicate_append_same)
qed
theorem Lock_cancellation_witness:
  "(\<exists>w'. Lock example_library (scripted [respond 423 [], respond 201 []]) r0
            \<lparr>cancel_at = Some (3 * Second)\<rparr> ''k'' w0 = Some (Returned (Some Canceled, w')) \<and>
          length (sent w') = 1 \<and> now w' = 5 * Second) \<and>
   (\<exists>w'. Lock example_library
            (scripted [\<lparr>latency = 2 * Second, result = Inr \<lparr>StatusCode = 201, Body = []\<rparr>\<rparr>]) r0
            \<lparr>cancel_at = Some Second\<rparr> ''k'' w0 = Some (Returned (Some Canceled, w')) \<and>
          length (sent w') = 1 \<and> now w' = Second)"
proof -
  let ?L = example_library
  let ?b = "marshal_payload (LockRequest ''k'')"
  let ?S1 = "scripted [respond 423 [], respond 201 []]"
  let ?S2 = "scripted [\<lparr>latency = 2 * Second, result = Inr \<lparr>StatusCode = 201, Body = []\<rparr>\<rparr>]"
  let ?c1 = "\<lparr>cancel_at = Some (3 * Second)\<rparr>"
  let ?c2 = "\<lparr>cancel_at = Some Second\<rparr>"
  have m: "json_Marshal ?L (LockRequest ''k'') = Inr ?b"
    by (rule example_Marshal)
  have u: "url_Parse ?L (Endpoint r0 @ ''lock'') = None"
    by (simp add: example_url stringContainsCTLByte_def)
  have c1: "cancel_at ?c1 = Some (3 * Second)" and c2: "cancel_at ?c2 = Some Second"
    by simp_all
  have t1: "\<forall>i<1. retries (?S1 (length (sent w0) + i))"
    by (simp add: retries_def scripted_def respond_def w0_def)
  have t2: "\<forall>i<0. retries (?S2 (length (sent w0) + i))"
    by simp
  have "\<exists>w'. Lock ?L ?S1 r0 ?c1 ''k'' w0 = Some (Returned (Some Canceled, w')) \<and>
      sent w' = sent w0 @ replicate 1 (sent_request r0 ?c1 ''POST'' ''lock'' ?b) \<and>
      now w' = reply_time ?S1 w0 (1 - 1) + 5 * Second \<and> now w' < 3 * Second + 5 * Second"
  proof (rule Lock_cancellation [OF m u c1 t1, THEN conjunct1, rule_format])
    show "0 < (1::nat) \<and> reply_time ?S1 w0 (1 - 1) < 3 * Second \<and>
      3 * Second \<le> reply_time ?S1 w0 (1 - 1) + 5 * Second"
      by (simp add: reply_time_def scripted_def respond_def w0_def Second_def)
  qed
  then have a1: "\<exists>w'. Lock ?L ?S1 r0 ?c1 ''k'' w0 = Some (Returned (Some Canceled, w')) \<and>
      length (sent w') = 1 \<and> now w' = 5 * Second"
    by (auto simp: reply_time_def scripted_def respond_def w0_def)
  have "\<exists>w'. Lock ?L ?S2 r0 ?c2 ''k'' w0 = Some (Returned (Some Canceled, w')) \<and>
      sent w' = sent w0 @ replicate (Suc 0) (sent_request r0 ?c2 ''POST'' ''lock'' ?b) \<and>
      now w' = Second"
  proof (rule Lock_cancellation [OF m u c2 t2, THEN conjunct2, rule_format])
    show "reply_time ?S2 w0 0 < Second + latency (?S2 (length (sent w0) + 0)) \<and>
      Second < reply_time ?S2 w0 0"
      by (simp add: reply_time_def scripted_def w0_def Second_def)
  qed
  then have a2: "\<exists>w'. Lock ?L ?S2 r0 ?c2 ''k'' w0 = Some (Returned (Some Canceled, w')) \<and>
      length (sent w') = 1 \<and> now w' = Second"
    by (auto simp: w0_def)
  from a1 a2 show ?thesis
    by blast
qed

end
